theory Spec2Isabelle
  imports Main "HOL-Library.Word"
begin

section \<open>The voice client of frontend/script.js\<close>

text \<open>
  The script keeps three module variables (\<open>isRecording\<close>, \<open>mediaRecorder\<close>,
  \<open>audioChunks\<close>), six page elements, and registers callbacks that the browser runs one
  at a time. Each callback, and each stretch of an \<open>async\<close> function between two
  \<open>await\<close>s, is a function from state to state here. What the browser owns (streams,
  recorder objects, operations that have been started and not yet settled) is part of
  the state as well, so that a claim about the device or about requests in flight can
  be stated.
\<close>

subsection \<open>Values\<close>

type_synonym byte = "8 word"

text \<open>The value \<open>response.json()\<close> resolves with. A number is kept by its integer value.\<close>

datatype json =
    JNull
  | JBool bool
  | JNum int
  | JStr string
  | JArr "json list"
  | JObj "(string \<times> json) list"

text \<open>An exception in flight: \<open>new Error(m)\<close>, or the TypeError of reading the named property
  of \<open>null\<close>, whose message is the engine's.\<close>

datatype js_error = Error string | NullRead string

datatype display = DisplayUnset | DisplayNone | DisplayBlock

datatype recorder_state = Inactive | Recording | Paused

record recorder =
  rec_state :: recorder_state
  mimeType :: string
  rec_stream :: nat

record blob =
  blob_data :: "byte list"
  blob_type :: string

record response =
  ok :: bool
  status :: nat
  statusText :: string
  body_json :: "string + json"

datatype fetch_outcome = NetworkFailure string | Responded response

record state =
  isRecording :: bool
  mediaRecorder :: "nat option"
  audioChunks :: "byte list list"
  micDisabled :: bool
  micRecordingClass :: bool
  micText :: string
  statusMessageText :: string
  statusMessageError :: bool
  responseAreaDisplay :: display
  transcriptOutputText :: string
  audioPlayerSrc :: string
  audioPlayerDisplay :: display
  hasMediaDevices :: bool
  streams :: "bool list list"
  recorders :: "recorder list"
  pendingAccess :: nat
  pendingStops :: "nat list"
  pendingReads :: "blob list"
  inFlight :: "string list"

text \<open>
  \<^item> \<open>mediaRecorder\<close> is a reference into \<open>recorders\<close>; \<open>None\<close> is \<open>undefined\<close> or \<open>null\<close>.
  \<^item> \<open>streams ! i\<close> is the stream that the \<open>i\<close>-th granted request returned, one flag per
    track: \<open>True\<close> while the track is live, \<open>False\<close> once \<open>track.stop()\<close> has run.
  \<^item> \<open>pendingAccess\<close> counts the \<open>getUserMedia\<close> calls not yet settled, \<open>pendingStops\<close> the
    recorders whose \<open>stop\<close> event is queued, \<open>pendingReads\<close> the blobs a FileReader is
    reading, \<open>inFlight\<close> the bodies of the requests \<open>fetch\<close> has sent and not yet settled.
\<close>

subsection \<open>Helper functions of the script\<close>

definition updateStatus :: "string \<Rightarrow> bool \<Rightarrow> state \<Rightarrow> state" where
  "updateStatus message isError s =
     s\<lparr>statusMessageText := message, statusMessageError := isError\<rparr>"

definition micIdleText :: string where
  "micIdleText = ''Click me to ask your technological questions''"

definition resetMicButton :: "state \<Rightarrow> state" where
  "resetMicButton s =
     s\<lparr>isRecording := False, micRecordingClass := False, micText := micIdleText\<rparr>"

subsection \<open>What JavaScript does with a value\<close>

text \<open>Truthiness, as \<open>&&\<close>, \<open>||\<close> and \<open>if\<close> test it; \<open>None\<close> is \<open>undefined\<close>.\<close>

fun truthy :: "json option \<Rightarrow> bool" where
  "truthy None = False"
| "truthy (Some JNull) = False"
| "truthy (Some (JBool b)) = b"
| "truthy (Some (JNum n)) = (n \<noteq> 0)"
| "truthy (Some (JStr t)) = (t \<noteq> [])"
| "truthy (Some (JArr xs)) = True"
| "truthy (Some (JObj ps)) = True"

text \<open>The value when it is truthy: \<open>v && \<dots>\<close> goes on with it, \<open>v || \<dots>\<close> returns it.\<close>

definition if_truthy :: "json option \<Rightarrow> json option" where
  "if_truthy v = (if truthy v then v else None)"

text \<open>Reading \<open>d.k\<close>: a TypeError on \<open>null\<close>, \<open>undefined\<close> where there is no such property.\<close>

fun get_prop :: "json \<Rightarrow> string \<Rightarrow> js_error + json option" where
  "get_prop JNull k = Inl (NullRead k)"
| "get_prop (JObj ps) k = Inr (map_of ps k)"
| "get_prop d k = Inr None"

fun string_of_nat :: "nat \<Rightarrow> string" where
  "string_of_nat n =
     (if n < 10 then [char_of (48 + n)]
      else string_of_nat (n div 10) @ [char_of (48 + n mod 10)])"

declare string_of_nat.simps [simp del]

definition string_of_int :: "int \<Rightarrow> string" where
  "string_of_int i = (if i < 0 then CHR ''-'' # string_of_nat (nat (- i)) else string_of_nat (nat i))"

fun join :: "string \<Rightarrow> string list \<Rightarrow> string" where
  "join sep [] = []"
| "join sep [x] = x"
| "join sep (x # y # ys) = x @ sep @ join sep (y # ys)"

text \<open>The string a value becomes in a template literal, in \<open>new Error(v)\<close> and when it is
  assigned to \<open>textContent\<close> or \<open>src\<close>.\<close>

fun js_to_string :: "json \<Rightarrow> string" where
  "js_to_string JNull = ''null''"
| "js_to_string (JBool b) = (if b then ''true'' else ''false'')"
| "js_to_string (JNum n) = string_of_int n"
| "js_to_string (JStr t) = t"
| "js_to_string (JArr xs) =
     join '','' (map (\<lambda>x. if x = JNull then [] else js_to_string x) xs)"
| "js_to_string (JObj ps) = ''[object Object]''"

text \<open>\<open>str.split(c)\<close> for a one-character separator.\<close>

fun split_on :: "char \<Rightarrow> string \<Rightarrow> string list" where
  "split_on c [] = [[]]"
| "split_on c (x # xs) =
     (if x = c then [] # split_on c xs
      else (case split_on c xs of
              [] \<Rightarrow> [[x]]
            | w # ws \<Rightarrow> (x # w) # ws))"

text \<open>\<open>error.message\<close>; \<open>eng\<close> gives the engine's wording of its TypeError.\<close>

fun error_message :: "(string \<Rightarrow> string) \<Rightarrow> js_error \<Rightarrow> string" where
  "error_message eng (Error m) = m"
| "error_message eng (NullRead k) = eng k"

subsection \<open>Browser objects\<close>

definition recorder_at :: "state \<Rightarrow> nat \<Rightarrow> recorder option" where
  "recorder_at s g = (if g < length (recorders s) then Some (recorders s ! g) else None)"

definition stream_tracks :: "state \<Rightarrow> nat \<Rightarrow> bool list" where
  "stream_tracks s sid = (if sid < length (streams s) then streams s ! sid else [])"

text \<open>\<open>stream.active\<close>: some track has not ended.\<close>

definition stream_active :: "state \<Rightarrow> nat \<Rightarrow> bool" where
  "stream_active s sid = (True \<in> set (stream_tracks s sid))"

text \<open>\<open>stream.getTracks().forEach(track => track.stop())\<close>\<close>

definition stop_tracks :: "nat \<Rightarrow> state \<Rightarrow> state" where
  "stop_tracks sid s =
     s\<lparr>streams := (streams s)[sid := map (\<lambda>t. False) (stream_tracks s sid)]\<rparr>"

definition set_rec_state :: "nat \<Rightarrow> recorder_state \<Rightarrow> state \<Rightarrow> state" where
  "set_rec_state g st s =
     s\<lparr>recorders := (recorders s)[g := (recorders s ! g)\<lparr>rec_state := st\<rparr>]\<rparr>"

text \<open>\<open>new Blob(parts, {type: ty})\<close>\<close>

definition new_Blob :: "byte list list \<Rightarrow> string \<Rightarrow> blob" where
  "new_Blob parts ty = \<lparr>blob_data = concat parts, blob_type = ty\<rparr>"

subsection \<open>Loading the script\<close>

text \<open>The top level of the script, run once on the page as the HTML built it (the HTML is
  not part of the sources, so the page is a parameter).\<close>

definition script_load :: "state \<Rightarrow> state" where
  "script_load page =
     (let s = page\<lparr>isRecording := False, mediaRecorder := None, audioChunks := []\<rparr>;
          s1 = (if \<not> hasMediaDevices s
                then (updateStatus ''Media Devices API not supported by your browser.'' True s)
                       \<lparr>micDisabled := True\<rparr>
                else s)
      in updateStatus ''Click the microphone button to start.'' False s1)"

subsection \<open>startRecording\<close>

text \<open>Up to the \<open>await\<close> of \<open>getUserMedia\<close>.\<close>

definition startRecording :: "state \<Rightarrow> state" where
  "startRecording s =
     (if \<not> hasMediaDevices s
      then updateStatus ''Media Devices API not supported.'' True s
      else (updateStatus ''Requesting microphone access...'' False s)
             \<lparr>pendingAccess := Suc (pendingAccess s)\<rparr>)"

text \<open>The outer \<open>catch (err)\<close>, with \<open>err.message\<close>.\<close>

definition startRecording_catch :: "string \<Rightarrow> state \<Rightarrow> state" where
  "startRecording_catch msg s =
     resetMicButton
       (updateStatus (''Could not access microphone: '' @ msg @ ''. Please grant permission.'')
          True s)"

text \<open>After the \<open>await\<close>, once access is granted: the lines up to \<open>audioChunks = []\<close>.\<close>

definition startRecording_granted :: "state \<Rightarrow> state" where
  "startRecording_granted s =
     (let s1 = s\<lparr>isRecording := True, micRecordingClass := True,
                  micText := ''Recording... Click to stop''\<rparr>;
          s2 = updateStatus ''Recording started...'' False s1
      in s2\<lparr>responseAreaDisplay := DisplayNone, transcriptOutputText := [],
             audioPlayerSrc := [], audioPlayerDisplay := DisplayNone, audioChunks := []\<rparr>)"

text \<open>
  Then the recorder is built and started. What the browser answers is given by
  \<open>pref\<close> (the constructor called with \<open>audio/webm;codecs=opus\<close>), \<open>dflt\<close> (the constructor
  called without options, tried only when the first threw) and \<open>start_err\<close> (\<open>start()\<close>):
  \<open>Inl\<close> and \<open>Some\<close> carry the message of the exception thrown, \<open>Inr\<close> the \<open>mimeType\<close> of
  the recorder built. The three callbacks are set between construction and \<open>start()\<close>;
  they are the functions \<open>ondataavailable\<close>, \<open>onstop\<close> and \<open>onerror\<close> below, closed over
  the stream \<open>sid\<close>.
\<close>

definition startRecording_recorder ::
  "nat \<Rightarrow> string + string \<Rightarrow> string + string \<Rightarrow> string option \<Rightarrow> state \<Rightarrow> state" where
  "startRecording_recorder sid pref dflt start_err s =
     (case (case pref of Inr m \<Rightarrow> Inr m | Inl w \<Rightarrow> dflt) of
        Inl msg \<Rightarrow> startRecording_catch msg s
      | Inr m \<Rightarrow>
          (let g = length (recorders s);
               s1 = s\<lparr>recorders := recorders s @
                          [\<lparr>rec_state = Inactive, mimeType = m, rec_stream = sid\<rparr>],
                       mediaRecorder := Some g\<rparr>
           in (case start_err of
                 Some msg \<Rightarrow> startRecording_catch msg s1
               | None \<Rightarrow> set_rec_state g Recording s1)))"

definition startRecording_resume ::
  "nat \<Rightarrow> string + string \<Rightarrow> string + string \<Rightarrow> string option \<Rightarrow> state \<Rightarrow> state" where
  "startRecording_resume sid pref dflt start_err s =
     startRecording_recorder sid pref dflt start_err (startRecording_granted s)"

subsection \<open>The recorder's callbacks\<close>

definition ondataavailable :: "byte list \<Rightarrow> state \<Rightarrow> state" where
  "ondataavailable data s =
     (if length data > 0 then s\<lparr>audioChunks := audioChunks s @ [data]\<rparr> else s)"

text \<open>
  \<open>onstop\<close> up to its \<open>await\<close>. The blob's type is read from the module variable
  \<open>mediaRecorder\<close>, not from the recorder that fired the event; when the variable is
  \<open>null\<close> that read throws, nothing catches it and the callback ends there.
\<close>

definition onstop :: "nat \<Rightarrow> state \<Rightarrow> state" where
  "onstop sid s =
     (if length (audioChunks s) = 0
      then resetMicButton (updateStatus ''No audio was recorded. Please try again.'' True s)
      else (case Option.bind (mediaRecorder s) (recorder_at s) of
              None \<Rightarrow> s
            | Some r \<Rightarrow>
                (let audioBlob = new_Blob (audioChunks s)
                                   (if mimeType r \<noteq> [] then mimeType r else ''audio/webm'');
                     s1 = stop_tracks sid s;
                     s2 = s1\<lparr>mediaRecorder := None\<rparr>;
                     s3 = updateStatus ''Processing audio...'' False s2
                 in s3\<lparr>pendingReads := pendingReads s3 @ [audioBlob]\<rparr>)))"

definition onerror :: "nat \<Rightarrow> string \<Rightarrow> state \<Rightarrow> state" where
  "onerror sid name s =
     (let s1 = updateStatus (''Recording error: '' @ name) True s;
          s2 = s1\<lparr>isRecording := False\<rparr>;
          s3 = resetMicButton s2;
          s4 = (if stream_active s3 sid then stop_tracks sid s3 else s3)
      in s4\<lparr>mediaRecorder := None\<rparr>)"

subsection \<open>stopRecording and the click listener\<close>

text \<open>\<open>mediaRecorder.stop()\<close> makes the recorder inactive at once and queues its
  \<open>stop\<close> event.\<close>

definition stopRecording :: "state \<Rightarrow> state" where
  "stopRecording s =
     (case mediaRecorder s of
        None \<Rightarrow> resetMicButton s
      | Some g \<Rightarrow>
          (if map_option rec_state (recorder_at s g) = Some Recording
           then (let s1 = (set_rec_state g Inactive s)\<lparr>pendingStops := pendingStops s @ [g]\<rparr>;
                     s2 = updateStatus ''Stopping recording...'' False s1
                 in s2\<lparr>isRecording := False, micRecordingClass := False,
                        micText := ''Processing...''\<rparr>)
           else resetMicButton s))"

definition click :: "state \<Rightarrow> state" where
  "click s = (if \<not> isRecording s then startRecording s else stopRecording s)"

subsection \<open>displayResponse\<close>

text \<open>The \<open>else\<close> branch.\<close>

definition displayResponse_invalid :: "state \<Rightarrow> state" where
  "displayResponse_invalid s =
     (updateStatus ''Received an invalid response from the assistant.'' True s)
       \<lparr>responseAreaDisplay := DisplayNone\<rparr>"

text \<open>The \<open>then\<close> branch, with the two values read from the response.\<close>

definition displayResponse_render :: "json \<Rightarrow> json \<Rightarrow> state \<Rightarrow> state" where
  "displayResponse_render t a s =
     updateStatus ''Response loaded. Press play to listen.'' False
       (s\<lparr>transcriptOutputText := js_to_string t, audioPlayerSrc := js_to_string a,
          audioPlayerDisplay := DisplayBlock, responseAreaDisplay := DisplayBlock\<rparr>)"

text \<open>\<open>data.transcript && data.audioUrl\<close> reads \<open>audioUrl\<close> only when \<open>transcript\<close> is truthy.
  \<open>Inl\<close> is the exception that leaves the function; it is thrown by the first read, before
  anything is written.\<close>

definition displayResponse :: "json \<Rightarrow> state \<Rightarrow> js_error + state" where
  "displayResponse data s =
     (case get_prop data ''transcript'' of
        Inl e \<Rightarrow> Inl e
      | Inr t \<Rightarrow>
          (case if_truthy t of
             None \<Rightarrow> Inr (displayResponse_invalid s)
           | Some tv \<Rightarrow>
               (case get_prop data ''audioUrl'' of
                  Inl e \<Rightarrow> Inl e
                | Inr a \<Rightarrow>
                    (case if_truthy a of
                       None \<Rightarrow> Inr (displayResponse_invalid s)
                     | Some av \<Rightarrow> Inr (displayResponse_render tv av s)))))"

subsection \<open>blobToBase64 and sendAudioToApi\<close>

text \<open>The promise of \<open>blobToBase64\<close>, from what the FileReader does: \<open>Inr\<close> is
  \<open>reader.result\<close> (a data URL), \<open>Inl\<close> the reader's error.\<close>

definition blobToBase64 :: "string + string \<Rightarrow> js_error + string" where
  "blobToBase64 reader =
     (case reader of
        Inl err \<Rightarrow> Inl (Error (''Error reading Blob: '' @ err))
      | Inr result \<Rightarrow> Inr result)"

text \<open>\<open>base64AudioString.split(',')[1] || base64AudioString\<close>\<close>

definition base64Data :: "string \<Rightarrow> string" where
  "base64Data base64AudioString =
     (case split_on CHR '','' base64AudioString of
        w # p # ws \<Rightarrow> (if p \<noteq> [] then p else base64AudioString)
      | ws \<Rightarrow> base64AudioString)"

text \<open>Up to the \<open>await\<close> of \<open>fetch\<close>: the request is sent.\<close>

definition sendAudioToApi :: "string \<Rightarrow> state \<Rightarrow> state" where
  "sendAudioToApi base64AudioString s =
     (let s1 = updateStatus ''Sending audio to Via...'' False s
      in s1\<lparr>inFlight := inFlight s1 @ [base64Data base64AudioString]\<rparr>)"

text \<open>The message of the Error thrown for a response that is not ok. A body that is not
  JSON, or is \<open>null\<close>, throws inside the inner \<open>try\<close> and leaves the default.\<close>

definition errorMsg :: "response \<Rightarrow> string" where
  "errorMsg r =
     (let dflt = ''Error: '' @ string_of_nat (status r) @ '' '' @ statusText r
      in (case body_json r of
            Inl e \<Rightarrow> dflt
          | Inr errorData \<Rightarrow>
              (case get_prop errorData ''error'' of
                 Inl e \<Rightarrow> dflt
               | Inr er \<Rightarrow>
                   (case if_truthy er of
                      Some v \<Rightarrow> js_to_string v
                    | None \<Rightarrow>
                        (case get_prop errorData ''message'' of
                           Inl e \<Rightarrow> dflt
                         | Inr me \<Rightarrow>
                             (case if_truthy me of
                                Some v \<Rightarrow> js_to_string v
                              | None \<Rightarrow> dflt))))))"

text \<open>The \<open>try\<close> block after the \<open>await\<close> of \<open>fetch\<close>. (The second \<open>await\<close>, of
  \<open>response.json()\<close>, is taken together with the first: nothing between the two reads or
  writes a variable or the page.)\<close>

definition sendAudioToApi_try :: "fetch_outcome \<Rightarrow> state \<Rightarrow> js_error + state" where
  "sendAudioToApi_try outcome s =
     (case outcome of
        NetworkFailure msg \<Rightarrow> Inl (Error msg)
      | Responded r \<Rightarrow>
          (if \<not> ok r then Inl (Error (errorMsg r))
           else (case body_json r of
                   Inl msg \<Rightarrow> Inl (Error msg)
                 | Inr data \<Rightarrow>
                     (case displayResponse data s of
                        Inl e \<Rightarrow> Inl e
                      | Inr s1 \<Rightarrow> Inr (updateStatus ''Response received.'' False s1)))))"

text \<open>\<open>try\<close>, \<open>catch\<close> and \<open>finally\<close>.\<close>

definition sendAudioToApi_resume :: "(string \<Rightarrow> string) \<Rightarrow> fetch_outcome \<Rightarrow> state \<Rightarrow> state" where
  "sendAudioToApi_resume eng outcome s =
     resetMicButton
       (case sendAudioToApi_try outcome s of
          Inl e \<Rightarrow> updateStatus (''Failed to get response: '' @ error_message eng e) True s
        | Inr s1 \<Rightarrow> s1)"

text \<open>\<open>onstop\<close> after its \<open>await\<close>: the \<open>try\<close> with its \<open>catch\<close>.\<close>

definition onstop_resume :: "string + string \<Rightarrow> state \<Rightarrow> state" where
  "onstop_resume reader s =
     (case blobToBase64 reader of
        Inr base64Audio \<Rightarrow> sendAudioToApi base64Audio s
      | Inl e \<Rightarrow> resetMicButton (updateStatus ''Error processing audio.'' True s))"

subsection \<open>The browser's event loop\<close>

datatype event =
    Click
  | AccessGranted "bool list" "string + string" "string + string" "string option"
  | AccessDenied string
  | DataAvailable nat "byte list"
  | StopEvent nat
  | ErrorEvent nat string
  | ReadSettled nat "string + string"
  | FetchSettled nat fetch_outcome

definition remove_nth :: "nat \<Rightarrow> 'a list \<Rightarrow> 'a list" where
  "remove_nth i xs = take i xs @ drop (Suc i) xs"

text \<open>
  One event: the browser's own bookkeeping, then the callback. An event the browser
  cannot deliver in the state (a click on a disabled button, the settlement of an
  operation that is not pending) leaves the state as it is. A recorder that fails is made
  inactive and gets its \<open>stop\<close> event after its \<open>error\<close> event.
\<close>

fun step :: "(string \<Rightarrow> string) \<Rightarrow> state \<Rightarrow> event \<Rightarrow> state" where
  "step eng s Click = (if micDisabled s then s else click s)"
| "step eng s (AccessGranted tracks pref dflt start_err) =
     (if pendingAccess s = 0 then s
      else startRecording_resume (length (streams s)) pref dflt start_err
             (s\<lparr>pendingAccess := pendingAccess s - 1, streams := streams s @ [tracks]\<rparr>))"
| "step eng s (AccessDenied msg) =
     (if pendingAccess s = 0 then s
      else startRecording_catch msg (s\<lparr>pendingAccess := pendingAccess s - 1\<rparr>))"
| "step eng s (DataAvailable g data) =
     (case recorder_at s g of
        None \<Rightarrow> s
      | Some r \<Rightarrow>
          (if rec_state r = Recording \<or> g \<in> set (pendingStops s)
           then ondataavailable data s else s))"
| "step eng s (StopEvent g) =
     (case recorder_at s g of
        None \<Rightarrow> s
      | Some r \<Rightarrow>
          (if g \<in> set (pendingStops s)
           then onstop (rec_stream r) (s\<lparr>pendingStops := remove1 g (pendingStops s)\<rparr>)
           else s))"
| "step eng s (ErrorEvent g name) =
     (case recorder_at s g of
        None \<Rightarrow> s
      | Some r \<Rightarrow>
          (if rec_state r = Recording
           then onerror (rec_stream r) name
                  ((set_rec_state g Inactive s)\<lparr>pendingStops := pendingStops s @ [g]\<rparr>)
           else s))"
| "step eng s (ReadSettled i reader) =
     (if i < length (pendingReads s)
      then onstop_resume reader (s\<lparr>pendingReads := remove_nth i (pendingReads s)\<rparr>)
      else s)"
| "step eng s (FetchSettled i outcome) =
     (if i < length (inFlight s)
      then sendAudioToApi_resume eng outcome (s\<lparr>inFlight := remove_nth i (inFlight s)\<rparr>)
      else s)"

definition run :: "(string \<Rightarrow> string) \<Rightarrow> state \<Rightarrow> event list \<Rightarrow> state" where
  "run eng s es = foldl (step eng) s es"

subsection \<open>Base64 and data URLs\<close>

text \<open>
  \<open>reader.readAsDataURL(blob)\<close> and the decoding of the request body are not code of the
  script. They are written here from RFC 4648 (the base64 alphabet, three bytes to four
  characters, \<open>=\<close> padding) and RFC 2397 (\<open>data:<mediatype>;base64,<data>\<close>).
\<close>

definition b64_char :: "nat \<Rightarrow> char" where
  "b64_char n =
     (if n < 26 then char_of (65 + n)
      else if n < 52 then char_of (71 + n)
      else if n < 62 then char_of (n - 4)
      else if n = 62 then CHR ''+'' else CHR ''/'')"

definition b64_index :: "char \<Rightarrow> nat option" where
  "b64_index c =
     (let k = (of_char c :: nat)
      in if 65 \<le> k \<and> k \<le> 90 then Some (k - 65)
         else if 97 \<le> k \<and> k \<le> 122 then Some (k - 71)
         else if 48 \<le> k \<and> k \<le> 57 then Some (k + 4)
         else if c = CHR ''+'' then Some 62
         else if c = CHR ''/'' then Some 63
         else None)"

fun b64_encode :: "byte list \<Rightarrow> string" where
  "b64_encode [] = []"
| "b64_encode [a] =
     (let x = unat a
      in [b64_char (x div 4), b64_char ((x mod 4) * 16), CHR ''='', CHR ''=''])"
| "b64_encode [a, b] =
     (let x = unat a; y = unat b
      in [b64_char (x div 4), b64_char ((x mod 4) * 16 + y div 16),
          b64_char ((y mod 16) * 4), CHR ''=''])"
| "b64_encode (a # b # c # bs) =
     (let x = unat a; y = unat b; z = unat c
      in [b64_char (x div 4), b64_char ((x mod 4) * 16 + y div 16),
          b64_char ((y mod 16) * 4 + z div 64), b64_char (z mod 64)] @ b64_encode bs)"

fun b64_decode :: "string \<Rightarrow> byte list option" where
  "b64_decode [] = Some []"
| "b64_decode (c1 # c2 # c3 # c4 # cs) =
     (case (b64_index c1, b64_index c2) of
        (Some i1, Some i2) \<Rightarrow>
          (if cs = [] \<and> c3 = CHR ''='' \<and> c4 = CHR ''=''
           then Some [of_nat (i1 * 4 + i2 div 16)]
           else (case b64_index c3 of
                   None \<Rightarrow> None
                 | Some i3 \<Rightarrow>
                     (if cs = [] \<and> c4 = CHR ''=''
                      then Some [of_nat (i1 * 4 + i2 div 16),
                                 of_nat ((i2 mod 16) * 16 + i3 div 4)]
                      else (case (b64_index c4, b64_decode cs) of
                              (Some i4, Some bs) \<Rightarrow>
                                Some (of_nat (i1 * 4 + i2 div 16) #
                                      of_nat ((i2 mod 16) * 16 + i3 div 4) #
                                      of_nat ((i3 mod 4) * 64 + i4) # bs)
                            | _ \<Rightarrow> None))))
      | _ \<Rightarrow> None)"
| "b64_decode cs = None"

definition data_url :: "string \<Rightarrow> byte list \<Rightarrow> string" where
  "data_url media bytes = ''data:'' @ media @ '';base64,'' @ b64_encode bytes"

subsection \<open>Phases and predicates\<close>

text \<open>The script has no variable for the phase of a cycle; the phases are read off the
  operations that are pending.\<close>

definition requesting :: "state \<Rightarrow> bool" where
  "requesting s = (0 < pendingAccess s)"

definition processing :: "state \<Rightarrow> bool" where
  "processing s = (pendingReads s \<noteq> [] \<or> inFlight s \<noteq> [])"

text \<open>The control as \<open>resetMicButton\<close> leaves it.\<close>

definition idle :: "state \<Rightarrow> bool" where
  "idle s = (\<not> isRecording s \<and> \<not> micRecordingClass s \<and> micText s = micIdleText)"

text \<open>\<open>s'\<close> is idle, the button is no more disabled than it was in \<open>s\<close>, and the next
  click starts a cycle.\<close>

definition back_to_idle :: "state \<Rightarrow> state \<Rightarrow> bool" where
  "back_to_idle s s' =
     (idle s' \<and> micDisabled s' = micDisabled s \<and> click s' = startRecording s')"

text \<open>A response object without the property \<open>k\<close>.\<close>

definition without_field :: "string \<Rightarrow> (string \<times> json) list \<Rightarrow> (string \<times> json) list" where
  "without_field k ps = filter (\<lambda>p. fst p \<noteq> k) ps"

subsection \<open>A page, an engine and some sessions\<close>

definition page0 :: state where
  "page0 = \<lparr>isRecording = False, mediaRecorder = None, audioChunks = [],
     micDisabled = False, micRecordingClass = False, micText = [],
     statusMessageText = [], statusMessageError = False,
     responseAreaDisplay = DisplayUnset, transcriptOutputText = [],
     audioPlayerSrc = [], audioPlayerDisplay = DisplayUnset,
     hasMediaDevices = True, streams = [], recorders = [],
     pendingAccess = 0, pendingStops = [], pendingReads = [], inFlight = []\<rparr>"

definition engine0 :: "string \<Rightarrow> string" where
  "engine0 k = ''Cannot read properties of null (reading '' @ k @ '')''"

definition opus :: string where
  "opus = ''audio/webm;codecs=opus''"

text \<open>Access granted to a stream of one live track; the recorder is built with the
  preferred type and starts.\<close>

definition granted :: event where
  "granted = AccessGranted [True] (Inr opus) (Inr []) None"

text \<open>Press, grant, press again, and the recorder stops without having delivered data.\<close>

definition silent_session :: "event list" where
  "silent_session = [Click, granted, Click, StopEvent 0]"

text \<open>Press, grant, press again; three bytes are delivered, the recorder stops, the blob
  is read and the request is sent.\<close>

definition session_sent :: "event list" where
  "session_sent =
     [Click, granted, Click, DataAvailable 0 [1, 2, 3], StopEvent 0,
      ReadSettled 0 (Inr (data_url opus [1, 2, 3]))]"

text \<open>The first session up to the delivery of its data.\<close>

definition session_recorded :: "event list" where
  "session_recorded = [Click, granted, Click, DataAvailable 0 [1, 2, 3]]"

text \<open>The same again while the first request is still in flight.\<close>

definition second_session_sent :: "event list" where
  "second_session_sent =
     [Click, granted, Click, DataAvailable 1 [4], StopEvent 1,
      ReadSettled 0 (Inr (data_url opus [4]))]"

definition response_empty_object :: response where
  "response_empty_object =
     \<lparr>ok = True, status = 200, statusText = ''OK'', body_json = Inr (JObj [])\<rparr>"

definition response_no_audio :: response where
  "response_no_audio =
     \<lparr>ok = True, status = 200, statusText = ''OK'',
      body_json = Inr (JObj [(''transcript'', JStr ''Turn on Wi-Fi'')])\<rparr>"

definition response_empty_audio :: response where
  "response_empty_audio =
     \<lparr>ok = True, status = 200, statusText = ''OK'',
      body_json = Inr (JObj [(''transcript'', JStr ''Turn on Wi-Fi''), (''audioUrl'', JStr [])])\<rparr>"

definition response_500 :: response where
  "response_500 =
     \<lparr>ok = False, status = 500, statusText = ''Internal Server Error'',
      body_json = Inr (JObj [(''error'', JStr ''upstream failure'')])\<rparr>"

section \<open>Unfolding and evaluation\<close>

lemmas handler_defs = updateStatus_def resetMicButton_def startRecording_def startRecording_catch_def
  startRecording_granted_def startRecording_recorder_def startRecording_resume_def
  ondataavailable_def onstop_def onerror_def stopRecording_def click_def
  displayResponse_invalid_def displayResponse_render_def displayResponse_def
  blobToBase64_def sendAudioToApi_def sendAudioToApi_try_def sendAudioToApi_resume_def onstop_resume_def
  recorder_at_def stream_tracks_def stream_active_def stop_tracks_def set_rec_state_def new_Blob_def
  remove_nth_def

lemmas example_defs = run_def script_load_def page0_def granted_def opus_def

lemma b64_123: "b64_encode [1, 2, 3] = ''AQID''"
  by code_simp

lemma b64_4: "b64_encode [4] = ''BA==''"
  by code_simp



lemma base64Data_opus: "base64Data (data_url opus [1, 2, 3]) = ''AQID''"
  "base64Data (data_url opus [4]) = ''BA==''"
  by (simp_all add: base64Data_def data_url_def opus_def b64_123 b64_4 del: b64_encode.simps)

lemma silent_state: "run engine0 (script_load page0) silent_session =
  \<lparr>isRecording = False, mediaRecorder = Some 0, audioChunks = [],
    micDisabled = False, micRecordingClass = False,
    micText = micIdleText,
    statusMessageText = ''No audio was recorded. Please try again.'',
    statusMessageError = True, responseAreaDisplay = DisplayNone,
    transcriptOutputText = [], audioPlayerSrc = [],
    audioPlayerDisplay = DisplayNone, hasMediaDevices = True,
    streams = [[True]],
    recorders = [\<lparr>rec_state = Inactive, mimeType = opus, rec_stream = 0\<rparr>],
    pendingAccess = 0, pendingStops = [], pendingReads = [], inFlight = []\<rparr>"
  by (simp add: silent_session_def example_defs handler_defs Let_def)

lemma sent_state: "run engine0 (script_load page0) session_sent =
  \<lparr>isRecording = False, mediaRecorder = None, audioChunks = [[1, 2, 3]],
    micDisabled = False, micRecordingClass = False,
    micText = ''Processing...'',
    statusMessageText = ''Sending audio to Via...'',
    statusMessageError = False, responseAreaDisplay = DisplayNone,
    transcriptOutputText = [], audioPlayerSrc = [],
    audioPlayerDisplay = DisplayNone, hasMediaDevices = True,
    streams = [[False]],
    recorders = [\<lparr>rec_state = Inactive, mimeType = opus, rec_stream = 0\<rparr>],
    pendingAccess = 0, pendingStops = [], pendingReads = [],
    inFlight = [''AQID'']\<rparr>"
  by (simp add: session_sent_def example_defs handler_defs Let_def base64Data_opus [unfolded opus_def])

lemma run_append: "run eng s (es @ fs) = run eng (run eng s es) fs"
  by (simp add: run_def)

lemma two_sent_state:
  "inFlight (run engine0 (script_load page0) (session_sent @ second_session_sent))
     = [''AQID'', ''BA=='']"
  by (simp add: run_append sent_state)
     (simp add: second_session_sent_def example_defs handler_defs Let_def base64Data_opus [unfolded opus_def])

lemma recorded_state: "run engine0 (script_load page0) session_recorded =
  \<lparr>isRecording = False, mediaRecorder = Some 0, audioChunks = [[1, 2, 3]],
    micDisabled = False, micRecordingClass = False,
    micText = ''Processing...'',
    statusMessageText = ''Stopping recording...'',
    statusMessageError = False, responseAreaDisplay = DisplayNone,
    transcriptOutputText = [], audioPlayerSrc = [],
    audioPlayerDisplay = DisplayNone, hasMediaDevices = True,
    streams = [[True]],
    recorders = [\<lparr>rec_state = Inactive, mimeType = opus, rec_stream = 0\<rparr>],
    pendingAccess = 0, pendingStops = [0], pendingReads = [], inFlight = []\<rparr>"
  by (simp add: session_recorded_def example_defs handler_defs Let_def)

lemma overlap_state: "run engine0 (script_load page0) (session_sent @ [Click, granted]) =
  \<lparr>isRecording = True, mediaRecorder = Some 1, audioChunks = [],
    micDisabled = False, micRecordingClass = True,
    micText = ''Recording... Click to stop'',
    statusMessageText = ''Recording started...'',
    statusMessageError = False, responseAreaDisplay = DisplayNone,
    transcriptOutputText = [], audioPlayerSrc = [],
    audioPlayerDisplay = DisplayNone, hasMediaDevices = True,
    streams = [[False], [True]],
    recorders = [\<lparr>rec_state = Inactive, mimeType = opus, rec_stream = 0\<rparr>,
                 \<lparr>rec_state = Recording, mimeType = opus, rec_stream = 1\<rparr>],
    pendingAccess = 0, pendingStops = [], pendingReads = [],
    inFlight = [''AQID'']\<rparr>"
  by (simp add: run_append sent_state)
     (simp add: example_defs handler_defs Let_def)

section \<open>Base64 decodes what it encoded\<close>

lemma b64_char_code:
  "n < 64 \<Longrightarrow>
     (of_char (b64_char n) :: nat) \<in> {43, 47} \<union> {48..57} \<union> {65..90} \<union> {97..122}"
  by (auto simp add: b64_char_def)

lemma b64_char_not_pad: "n < 64 \<Longrightarrow> b64_char n \<noteq> CHR ''=''"
  using b64_char_code [of n] by (auto)

lemma b64_char_not_comma: "n < 64 \<Longrightarrow> b64_char n \<noteq> CHR '',''"
  using b64_char_code [of n] by (auto)

lemma b64_index_char: "n < 64 \<Longrightarrow> b64_index (b64_char n) = Some n"
  by (auto simp add: b64_index_def b64_char_def Let_def)



lemma regroup1:
  fixes x y :: nat
  assumes "y < 256"
  shows "(x div 4) * 4 + ((x mod 4) * 16 + y div 16) div 16 = x"
proof -
  have "y div 16 < 16" using assms by simp
  then have "((x mod 4) * 16 + y div 16) div 16 = x mod 4" by simp
  then show ?thesis by simp
qed

lemma regroup2:
  fixes x y z :: nat
  assumes "y < 256" "z < 256"
  shows "(((x mod 4) * 16 + y div 16) mod 16) * 16 + ((y mod 16) * 4 + z div 64) div 4 = y"
proof -
  have "y div 16 < 16" "z div 64 < 4" using assms by simp_all
  then have "((x mod 4) * 16 + y div 16) mod 16 = y div 16"
    "((y mod 16) * 4 + z div 64) div 4 = y mod 16" by simp_all
  then show ?thesis by simp
qed

lemma regroup3:
  fixes y z :: nat
  assumes "z < 256"
  shows "(((y mod 16) * 4 + z div 64) mod 4) * 64 + z mod 64 = z"
proof -
  have "z div 64 < 4" using assms by simp
  then have "((y mod 16) * 4 + z div 64) mod 4 = z div 64" by simp
  then show ?thesis by simp
qed


lemma byte_bound: "unat (a :: byte) < 256"
  using unsigned_less [of a, where 'a=nat] by simp

lemma sextets:
  fixes x y z :: nat
  assumes "x < 256" "y < 256" "z < 256"
  shows "x div 4 < 64" "(x mod 4) * 16 < 64" "(x mod 4) * 16 + y div 16 < 64"
    "(y mod 16) * 4 < 64" "(y mod 16) * 4 + z div 64 < 64" "z mod 64 < 64"
  using assms by auto

lemma decode_group1:
  fixes a :: byte
  shows "b64_decode (b64_encode [a]) = Some [a]"
proof -
  define x where "x = unat a"
  have x: "x < 256" unfolding x_def by (rule byte_bound)
  have i: "b64_index (b64_char (x div 4)) = Some (x div 4)"
    "b64_index (b64_char ((x mod 4) * 16)) = Some ((x mod 4) * 16)"
    using x by (simp_all add: b64_index_char)
  have "(x div 4) * 4 + ((x mod 4) * 16) div 16 = x" by simp
  then have "(of_nat ((x div 4) * 4 + ((x mod 4) * 16) div 16) :: byte) = a"
    by (simp only: x_def) simp
  then show ?thesis
    using i by (simp add: Let_def x_def [symmetric])
qed

lemma decode_group2:
  fixes a b :: byte
  shows "b64_decode (b64_encode [a, b]) = Some [a, b]"
proof -
  define x y where "x = unat a" and "y = unat b"
  have x: "x < 256" and y: "y < 256" unfolding x_def y_def by (rule byte_bound)+
  have i: "b64_index (b64_char (x div 4)) = Some (x div 4)"
    "b64_index (b64_char ((x mod 4) * 16 + y div 16)) = Some ((x mod 4) * 16 + y div 16)"
    "b64_index (b64_char ((y mod 16) * 4)) = Some ((y mod 16) * 4)"
    using sextets [OF x y y] by (simp_all add: b64_index_char)
  have p: "b64_char ((y mod 16) * 4) \<noteq> CHR ''=''"
    using sextets [OF x y y] by (simp add: b64_char_not_pad)
  have "(x div 4) * 4 + ((x mod 4) * 16 + y div 16) div 16 = x"
    "(((x mod 4) * 16 + y div 16) mod 16) * 16 + ((y mod 16) * 4) div 4 = y"
    using regroup1 [OF y, of x] regroup2 [OF y, of 0 x] by simp_all
  then have "(of_nat ((x div 4) * 4 + ((x mod 4) * 16 + y div 16) div 16) :: byte) = a"
    "(of_nat ((((x mod 4) * 16 + y div 16) mod 16) * 16 + ((y mod 16) * 4) div 4) :: byte) = b"
    by (simp_all only: x_def y_def) simp_all
  then show ?thesis
    using i p by (simp add: Let_def x_def [symmetric] y_def [symmetric])
qed

lemma decode_group3:
  fixes a b c :: byte
  assumes "b64_decode cs = Some bs"
  shows "b64_decode (b64_encode [a, b, c] @ cs) = Some (a # b # c # bs)"
proof -
  define x y z where "x = unat a" and "y = unat b" and "z = unat c"
  have x: "x < 256" and y: "y < 256" and z: "z < 256"
    unfolding x_def y_def z_def by (rule byte_bound)+
  have i: "b64_index (b64_char (x div 4)) = Some (x div 4)"
    "b64_index (b64_char ((x mod 4) * 16 + y div 16)) = Some ((x mod 4) * 16 + y div 16)"
    "b64_index (b64_char ((y mod 16) * 4 + z div 64)) = Some ((y mod 16) * 4 + z div 64)"
    "b64_index (b64_char (z mod 64)) = Some (z mod 64)"
    using sextets [OF x y z] by (simp_all add: b64_index_char)
  have p: "b64_char ((y mod 16) * 4 + z div 64) \<noteq> CHR ''=''" "b64_char (z mod 64) \<noteq> CHR ''=''"
    using sextets [OF x y z] by (simp_all add: b64_char_not_pad)
  have "(x div 4) * 4 + ((x mod 4) * 16 + y div 16) div 16 = x"
    "(((x mod 4) * 16 + y div 16) mod 16) * 16 + ((y mod 16) * 4 + z div 64) div 4 = y"
    "(((y mod 16) * 4 + z div 64) mod 4) * 64 + z mod 64 = z"
    by (rule regroup1 [OF y] regroup2 [OF y z] regroup3 [OF z])+
  then have "(of_nat ((x div 4) * 4 + ((x mod 4) * 16 + y div 16) div 16) :: byte) = a"
    "(of_nat ((((x mod 4) * 16 + y div 16) mod 16) * 16 + ((y mod 16) * 4 + z div 64) div 4) :: byte) = b"
    "(of_nat ((((y mod 16) * 4 + z div 64) mod 4) * 64 + z mod 64) :: byte) = c"
    by (simp_all only: x_def y_def z_def) simp_all
  then show ?thesis
    using i p assms by (simp add: Let_def x_def [symmetric] y_def [symmetric] z_def [symmetric])
qed

lemma b64_decode_encode: "b64_decode (b64_encode bs) = Some bs"
proof (induction bs rule: b64_encode.induct)
  case 1
  show ?case by simp
next
  case (2 a)
  show ?case by (rule decode_group1)
next
  case (3 a b)
  show ?case by (rule decode_group2)
next
  case (4 a b c bs)
  have "b64_encode (a # b # c # bs) = b64_encode [a, b, c] @ b64_encode bs"
    by (simp add: Let_def)
  then show ?case using decode_group3 [OF "4.IH"] by simp
qed

lemma b64_encode_no_comma: "CHR '','' \<notin> set (b64_encode bs)"
proof (induction bs rule: b64_encode.induct)
  case (4 a b c bs)
  then show ?case
    using sextets [OF byte_bound [of a] byte_bound [of b] byte_bound [of c]]
    by (simp add: Let_def b64_char_not_comma [THEN not_sym])
next
  case (3 a b)
  then show ?case
    using sextets [OF byte_bound [of a] byte_bound [of b] byte_bound [of b]]
    by (simp add: Let_def b64_char_not_comma [THEN not_sym])
next
  case (2 a)
  then show ?case
    using sextets [OF byte_bound [of a] byte_bound [of a] byte_bound [of a]]
    by (simp add: Let_def b64_char_not_comma [THEN not_sym])
qed simp

lemma b64_encode_empty: "b64_encode bs = [] \<longleftrightarrow> bs = []"
  by (cases bs rule: b64_encode.cases) (simp_all add: Let_def)


lemma split_on_no_sep: "c \<notin> set xs \<Longrightarrow> split_on c xs = [xs]"
  by (induction xs) auto

lemma split_on_prefix: "c \<notin> set p \<Longrightarrow> split_on c (p @ c # r) = p # split_on c r"
  by (induction p) auto

lemma base64Data_data_url:
  assumes "CHR '','' \<notin> set media" and "bytes \<noteq> []"
  shows "base64Data (data_url media bytes) = b64_encode bytes"
proof -
  have p: "CHR '','' \<notin> set (''data:'' @ media @ '';base64'')"
    using assms(1) by simp
  have "data_url media bytes = (''data:'' @ media @ '';base64'') @ CHR '','' # b64_encode bytes"
    by (simp add: data_url_def)
  then have "split_on CHR '','' (data_url media bytes)
      = (''data:'' @ media @ '';base64'') # [b64_encode bytes]"
    using split_on_prefix [OF p, of "b64_encode bytes"]
      split_on_no_sep [OF b64_encode_no_comma [of bytes]]
    by simp
  moreover have "b64_encode bytes \<noteq> []"
    using assms(2) by (simp add: b64_encode_empty)
  ultimately show ?thesis
    by (simp add: base64Data_def)
qed

section \<open>Properties of the callbacks\<close>

lemma onstop_zero_chunks_streams:
  "audioChunks s = [] \<Longrightarrow> streams (onstop sid s) = streams s"
  by (simp add: onstop_def resetMicButton_def updateStatus_def)

lemma stop_tracks_inactive: "\<not> stream_active (stop_tracks sid s) sid"
  by (auto simp add: stream_active_def stream_tracks_def stop_tracks_def)

lemma other_exits_release_device:
  "audioChunks s \<noteq> [] \<Longrightarrow> Option.bind (mediaRecorder s) (recorder_at s) = Some r
     \<Longrightarrow> \<not> stream_active (onstop sid s) sid"
  "\<not> stream_active (onerror sid name s) sid"
  "\<not> stream_active s sid \<Longrightarrow> \<not> stream_active (onstop_resume reader s) sid"
  subgoal
    using stop_tracks_inactive [of sid s]
    by (simp add: onstop_def Let_def updateStatus_def stream_active_def stream_tracks_def)
  subgoal
    using stop_tracks_inactive [of sid "resetMicButton ((updateStatus (''Recording error: '' @ name) True s)\<lparr>isRecording := False\<rparr>)"]
    by (simp add: onerror_def Let_def stream_active_def stream_tracks_def)
  subgoal
    by (simp add: onstop_resume_def blobToBase64_def sendAudioToApi_def resetMicButton_def
        updateStatus_def stream_active_def stream_tracks_def Let_def split: sum.splits)
  done

lemma invalid_shape_final_status:
  assumes "ok r" and "body_json r = Inr data"
    and "displayResponse data s = Inr (displayResponse_invalid s)"
  shows "statusMessageText (sendAudioToApi_resume eng (Responded r) s) = ''Response received.''"
    and "\<not> statusMessageError (sendAudioToApi_resume eng (Responded r) s)"
  using assms
  by (simp_all add: sendAudioToApi_resume_def sendAudioToApi_try_def resetMicButton_def
      updateStatus_def)

lemma other_errors_final_status:
  "statusMessageError (startRecording_catch msg s)"
  "statusMessageError (onerror sid name s)"
  "audioChunks s = [] \<Longrightarrow> statusMessageError (onstop sid s)"
  "statusMessageError (onstop_resume (Inl err) s)"
  "statusMessageError (sendAudioToApi_resume eng (NetworkFailure msg) s)"
  "\<not> ok r \<Longrightarrow> statusMessageError (sendAudioToApi_resume eng (Responded r) s)"
  by (simp_all add: handler_defs Let_def)

lemma onstop_reads:
  assumes "audioChunks s \<noteq> []" and "Option.bind (mediaRecorder s) (recorder_at s) = Some r"
  shows "pendingReads (onstop sid s) = pendingReads s @
           [new_Blob (audioChunks s) (if mimeType r \<noteq> [] then mimeType r else ''audio/webm'')]"
    and "inFlight (onstop sid s) = inFlight s"
  using assms by (simp_all add: onstop_def Let_def updateStatus_def stop_tracks_def)

lemma recorder_at_pendingStops: "recorder_at (s\<lparr>pendingStops := x\<rparr>) = recorder_at s"
  by (simp add: recorder_at_def fun_eq_iff)

lemma map_of_without_field: "map_of (without_field k ps) k = None"
  by (induction ps) (auto simp add: without_field_def)

lemma displayResponse_falsy_field:
  assumes "get_prop data ''transcript'' = Inr t" and "get_prop data ''audioUrl'' = Inr a"
    and "\<not> truthy t \<or> \<not> truthy a"
  shows "displayResponse data s =
           Inr (s\<lparr>statusMessageText := ''Received an invalid response from the assistant.'',
                  statusMessageError := True, responseAreaDisplay := DisplayNone\<rparr>)"
  using assms
  by (auto simp add: displayResponse_def displayResponse_invalid_def updateStatus_def
      if_truthy_def split: option.splits)

lemma invalid_payload_final_state:
  assumes "ok r" and "body_json r = Inr data"
    and "get_prop data ''transcript'' = Inr t" and "get_prop data ''audioUrl'' = Inr a"
    and "\<not> truthy t \<or> \<not> truthy a"
  shows "sendAudioToApi_resume eng (Responded r) s =
           s\<lparr>isRecording := False, micRecordingClass := False, micText := micIdleText,
             statusMessageText := ''Response received.'', statusMessageError := False,
             responseAreaDisplay := DisplayNone\<rparr>"
  using assms(1,2) displayResponse_falsy_field [OF assms(3,4,5), of s]
  by (simp add: sendAudioToApi_resume_def sendAudioToApi_try_def resetMicButton_def
      updateStatus_def)

lemma empty_field_as_absent:
  assumes "map_of ps ''transcript'' = Some (JStr []) \<or> map_of ps ''audioUrl'' = Some (JStr [])"
  shows "displayResponse (JObj ps) s =
           Inr (s\<lparr>statusMessageText := ''Received an invalid response from the assistant.'',
                  statusMessageError := True, responseAreaDisplay := DisplayNone\<rparr>)"
    and "displayResponse (JObj (without_field ''transcript'' ps)) s = displayResponse (JObj ps) s"
    and "displayResponse (JObj (without_field ''audioUrl'' ps)) s = displayResponse (JObj ps) s"
proof -
  have f: "\<not> truthy (map_of ps ''transcript'') \<or> \<not> truthy (map_of ps ''audioUrl'')"
    using assms by auto
  show a: "displayResponse (JObj ps) s =
           Inr (s\<lparr>statusMessageText := ''Received an invalid response from the assistant.'',
                  statusMessageError := True, responseAreaDisplay := DisplayNone\<rparr>)"
    by (rule displayResponse_falsy_field [OF _ _ f]) simp_all
  show "displayResponse (JObj (without_field ''transcript'' ps)) s = displayResponse (JObj ps) s"
    using displayResponse_falsy_field
      [of "JObj (without_field ''transcript'' ps)" None
          "map_of (without_field ''transcript'' ps) ''audioUrl''" s]
    by (simp add: a map_of_without_field)
  show "displayResponse (JObj (without_field ''audioUrl'' ps)) s = displayResponse (JObj ps) s"
    using displayResponse_falsy_field
      [of "JObj (without_field ''audioUrl'' ps)"
          "map_of (without_field ''audioUrl'' ps) ''transcript''" None s]
    by (simp add: a map_of_without_field)
qed

lemma step_chunks_nonempty:
  assumes "[] \<notin> set (audioChunks s)"
  shows "[] \<notin> set (audioChunks (step eng s e))"
proof (cases e)
  case Click
  with assms show ?thesis
    by (simp add: click_def startRecording_def stopRecording_def updateStatus_def
        resetMicButton_def set_rec_state_def Let_def split: option.splits)
next
  case (AccessGranted tracks pref dflt start_err)
  then show ?thesis using assms
    by (simp add: startRecording_resume_def startRecording_recorder_def startRecording_granted_def
      startRecording_catch_def resetMicButton_def updateStatus_def set_rec_state_def Let_def
      split: sum.splits option.splits)
next
  case (AccessDenied msg)
  with assms show ?thesis
    by (simp add: startRecording_catch_def resetMicButton_def updateStatus_def)
next
  case (DataAvailable g data)
  with assms show ?thesis
    by (auto simp add: ondataavailable_def split: option.splits)
next
  case (StopEvent g)
  with assms show ?thesis
    by (simp add: onstop_def resetMicButton_def updateStatus_def stop_tracks_def Let_def
        split: option.splits)
next
  case (ErrorEvent g name)
  with assms show ?thesis
    by (simp add: onerror_def resetMicButton_def updateStatus_def stop_tracks_def
        set_rec_state_def Let_def split: option.splits)
next
  case (ReadSettled i reader)
  with assms show ?thesis
    by (simp add: onstop_resume_def blobToBase64_def sendAudioToApi_def resetMicButton_def
        updateStatus_def Let_def split: sum.splits)
next
  case (FetchSettled i outcome)
  have "audioChunks (sendAudioToApi_resume eng outcome s') = audioChunks s'" for s'
    by (auto simp add: sendAudioToApi_resume_def sendAudioToApi_try_def displayResponse_def
        displayResponse_invalid_def displayResponse_render_def resetMicButton_def updateStatus_def
        split: fetch_outcome.splits sum.splits option.splits)
  with FetchSettled assms show ?thesis by simp
qed

lemma run_chunks_nonempty: "[] \<notin> set (audioChunks (run eng (script_load page) es))"
proof (induction es rule: rev_induct)
  case Nil
  show ?case by (simp add: run_def script_load_def updateStatus_def Let_def)
next
  case (snoc e es)
  then show ?case
    using step_chunks_nonempty [of "run eng (script_load page) es" eng e]
    by (simp add: run_def)
qed

section \<open>The claims\<close>

subsection \<open>C1: a press while requesting or processing\<close>

text \<open>
  Claim C1, as the code has it. A press of the enabled control is never ignored,
  whatever is pending: the listener acts on \<open>isRecording\<close> alone. When \<open>isRecording\<close> is
  false (on a browser with media devices) the press runs \<open>startRecording\<close>: the status
  becomes "Requesting microphone access..." with no error and one more request for
  access is pending, while \<open>isRecording\<close>, the recorder, the captured chunks, the pending
  reads and the requests in flight stay as they were. When \<open>isRecording\<close> is true (a
  later cycle is recording while an earlier one is still pending) the press runs
  \<open>stopRecording\<close>: \<open>isRecording\<close> becomes false, and the pending requests for access, the
  captured chunks, the pending reads and the requests in flight stay as they were.
\<close>

theorem press_mid_cycle_acts_on_isRecording:
  assumes "\<not> micDisabled s"
  shows "step eng s Click = (if isRecording s then stopRecording s else startRecording s)
         \<and> (\<not> isRecording s \<and> hasMediaDevices s \<longrightarrow>
               step eng s Click =
                 (updateStatus ''Requesting microphone access...'' False s)
                   \<lparr>pendingAccess := Suc (pendingAccess s)\<rparr>
               \<and> requesting (step eng s Click)
               \<and> isRecording (step eng s Click) = isRecording s
               \<and> mediaRecorder (step eng s Click) = mediaRecorder s
               \<and> audioChunks (step eng s Click) = audioChunks s
               \<and> pendingReads (step eng s Click) = pendingReads s
               \<and> inFlight (step eng s Click) = inFlight s)
         \<and> (isRecording s \<longrightarrow>
               \<not> isRecording (step eng s Click)
               \<and> pendingAccess (step eng s Click) = pendingAccess s
               \<and> audioChunks (step eng s Click) = audioChunks s
               \<and> pendingReads (step eng s Click) = pendingReads s
               \<and> inFlight (step eng s Click) = inFlight s)"
  using assms
  by (simp add: click_def startRecording_def stopRecording_def updateStatus_def
      resetMicButton_def set_rec_state_def requesting_def Let_def split: option.splits)

theorem press_mid_cycle_acts_on_isRecording_witness:
  "\<not> micDisabled (run engine0 (script_load page0) session_sent)
   \<and> processing (run engine0 (script_load page0) session_sent)
   \<and> \<not> isRecording (run engine0 (script_load page0) session_sent)
   \<and> hasMediaDevices (run engine0 (script_load page0) session_sent)
   \<and> pendingAccess (step engine0 (run engine0 (script_load page0) session_sent) Click) = 1
   \<and> statusMessageText (step engine0 (run engine0 (script_load page0) session_sent) Click)
       = ''Requesting microphone access...''
   \<and> inFlight (step engine0 (run engine0 (script_load page0) session_sent) Click) = [''AQID'']
   \<and> \<not> micDisabled (run engine0 (script_load page0) (session_sent @ [Click, granted]))
   \<and> processing (run engine0 (script_load page0) (session_sent @ [Click, granted]))
   \<and> isRecording (run engine0 (script_load page0) (session_sent @ [Click, granted]))
   \<and> \<not> isRecording
        (step engine0 (run engine0 (script_load page0) (session_sent @ [Click, granted])) Click)
   \<and> pendingAccess
        (step engine0 (run engine0 (script_load page0) (session_sent @ [Click, granted])) Click)
       = 0
   \<and> inFlight
        (step engine0 (run engine0 (script_load page0) (session_sent @ [Click, granted])) Click)
       = [''AQID'']"
proof -
  let ?a = "run engine0 (script_load page0) session_sent"
  let ?b = "run engine0 (script_load page0) (session_sent @ [Click, granted])"
  have ha: "\<not> micDisabled ?a" "processing ?a" "\<not> isRecording ?a" "hasMediaDevices ?a"
    "pendingAccess ?a = 0" "inFlight ?a = [''AQID'']"
    by (simp_all add: sent_state processing_def)
  have hb: "\<not> micDisabled ?b" "processing ?b" "isRecording ?b"
    "pendingAccess ?b = 0" "inFlight ?b = [''AQID'']"
    by (simp_all add: overlap_state processing_def)
  have a: "step engine0 ?a Click =
             (updateStatus ''Requesting microphone access...'' False ?a)
               \<lparr>pendingAccess := Suc (pendingAccess ?a)\<rparr>"
    using press_mid_cycle_acts_on_isRecording [OF ha(1), of engine0] ha(3,4) by blast
  have b: "\<not> isRecording (step engine0 ?b Click)"
    "pendingAccess (step engine0 ?b Click) = pendingAccess ?b"
    "inFlight (step engine0 ?b Click) = inFlight ?b"
    using press_mid_cycle_acts_on_isRecording [OF hb(1), of engine0] hb(3) by blast+
  show ?thesis
    using ha hb b by (simp add: a updateStatus_def del: step.simps)
qed

text \<open>
  Claim C1 as stated fails: after one press a second press changes the state (two
  requests for access are pending), and while the first request is in flight a press
  changes the state and starts a new cycle, at the end of which two requests are in
  flight.
\<close>

theorem press_mid_cycle_counterexample:
  "requesting (run engine0 (script_load page0) [Click])
   \<and> step engine0 (run engine0 (script_load page0) [Click]) Click
       \<noteq> run engine0 (script_load page0) [Click]
   \<and> processing (run engine0 (script_load page0) session_sent)
   \<and> step engine0 (run engine0 (script_load page0) session_sent) Click
       \<noteq> run engine0 (script_load page0) session_sent
   \<and> requesting (step engine0 (run engine0 (script_load page0) session_sent) Click)
   \<and> length (inFlight (run engine0 (script_load page0) (session_sent @ second_session_sent))) = 2"
proof -
  have a: "pendingAccess (run engine0 (script_load page0) [Click]) = 1"
    by (simp add: example_defs handler_defs)
  have b: "pendingAccess (step engine0 (run engine0 (script_load page0) [Click]) Click) = 2"
    by (simp add: example_defs handler_defs)
  have c: "pendingAccess (step engine0 (run engine0 (script_load page0) session_sent) Click) = 1"
    by (simp add: sent_state handler_defs)
  have d: "pendingAccess (run engine0 (script_load page0) session_sent) = 0"
    by (simp add: sent_state)
  have "step engine0 (run engine0 (script_load page0) [Click]) Click
       \<noteq> run engine0 (script_load page0) [Click]"
  proof
    assume "step engine0 (run engine0 (script_load page0) [Click]) Click
       = run engine0 (script_load page0) [Click]"
    then have "pendingAccess (step engine0 (run engine0 (script_load page0) [Click]) Click)
       = pendingAccess (run engine0 (script_load page0) [Click])"
      by (rule arg_cong)
    with a b show False by simp
  qed
  moreover have "step engine0 (run engine0 (script_load page0) session_sent) Click
       \<noteq> run engine0 (script_load page0) session_sent"
  proof
    assume "step engine0 (run engine0 (script_load page0) session_sent) Click
       = run engine0 (script_load page0) session_sent"
    then have "pendingAccess (step engine0 (run engine0 (script_load page0) session_sent) Click)
       = pendingAccess (run engine0 (script_load page0) session_sent)"
      by (rule arg_cong)
    with c d show False by simp
  qed
  ultimately show ?thesis
    using a c by (simp add: requesting_def processing_def sent_state two_sent_state)
qed

subsection \<open>C2: release of the microphone\<close>

text \<open>
  Claim C2 at the session that stops without audio: \<open>onstop\<close> returns before the
  line that stops the tracks, so the one track of the stream is still live when the
  session has ended with "No audio was recorded. Please try again." and nothing is
  pending. (The other three exits stop the tracks: \<open>other_exits_release_device\<close>.)
\<close>

theorem zero_chunk_stop_keeps_device:
  "streams (run engine0 (script_load page0) silent_session) = [[True]]
   \<and> stream_active (run engine0 (script_load page0) silent_session) 0
   \<and> statusMessageText (run engine0 (script_load page0) silent_session)
       = ''No audio was recorded. Please try again.''
   \<and> pendingStops (run engine0 (script_load page0) silent_session) = []"
  by (simp add: silent_state stream_active_def stream_tracks_def)

subsection \<open>C3: the status after an error\<close>

text \<open>
  Claim C3 at a response that is ok and whose body is the empty object:
  \<open>displayResponse\<close> sets the error status, and \<open>sendAudioToApi\<close> then replaces it, so the
  cycle ends with the status "Response received." and no error severity.
  (Every other error ends with an error status: \<open>other_errors_final_status\<close>.)
\<close>

theorem invalid_shape_error_overwritten:
  "statusMessageText
     (run engine0 (script_load page0)
        (session_sent @ [FetchSettled 0 (Responded response_empty_object)]))
     = ''Response received.''
   \<and> \<not> statusMessageError
     (run engine0 (script_load page0)
        (session_sent @ [FetchSettled 0 (Responded response_empty_object)]))"
  by (simp add: run_append sent_state)
     (simp add: run_def response_empty_object_def handler_defs if_truthy_def)

subsection \<open>C4: the message of a remote error\<close>

text \<open>
  Claim C4, as the code has it. For a response that is not ok and whose body is an
  object with a non-empty string \<open>error\<close>, the Error thrown carries exactly that text;
  the status shown is "Failed to get response: " followed by that text, with error
  severity, and the control is back to idle.
\<close>

theorem remote_error_status:
  assumes "\<not> ok r" and "body_json r = Inr (JObj ps)"
    and "map_of ps ''error'' = Some (JStr m)" and "m \<noteq> []"
  shows "errorMsg r = m
         \<and> sendAudioToApi_resume eng (Responded r) s =
             resetMicButton (updateStatus (''Failed to get response: '' @ m) True s)
         \<and> statusMessageText (sendAudioToApi_resume eng (Responded r) s) =
             ''Failed to get response: '' @ m
         \<and> statusMessageError (sendAudioToApi_resume eng (Responded r) s)
         \<and> back_to_idle s (sendAudioToApi_resume eng (Responded r) s)"
proof -
  have e: "errorMsg r = m"
    using assms by (simp add: errorMsg_def if_truthy_def)
  have t: "sendAudioToApi_try (Responded r) s = Inl (Error m)"
    using assms e by (simp add: sendAudioToApi_try_def)
  have r: "sendAudioToApi_resume eng (Responded r) s =
             resetMicButton (updateStatus (''Failed to get response: '' @ m) True s)"
    by (simp add: sendAudioToApi_resume_def t)
  show ?thesis
    by (simp add: e r) (simp add: resetMicButton_def updateStatus_def back_to_idle_def idle_def click_def)
qed

theorem remote_error_status_witness:
  "\<not> ok response_500
   \<and> body_json response_500 = Inr (JObj [(''error'', JStr ''upstream failure'')])
   \<and> map_of [(''error'', JStr ''upstream failure'')] ''error'' = Some (JStr ''upstream failure'')
   \<and> ''upstream failure'' \<noteq> []
   \<and> errorMsg response_500 = ''upstream failure''
   \<and> statusMessageText (sendAudioToApi_resume engine0 (Responded response_500) (script_load page0))
       = ''Failed to get response: upstream failure''
   \<and> statusMessageError (sendAudioToApi_resume engine0 (Responded response_500) (script_load page0))
   \<and> \<not> isRecording (sendAudioToApi_resume engine0 (Responded response_500) (script_load page0))"
proof -
  have h: "\<not> ok response_500"
    "body_json response_500 = Inr (JObj [(''error'', JStr ''upstream failure'')])"
    "map_of [(''error'', JStr ''upstream failure'')] ''error'' = Some (JStr ''upstream failure'')"
    "''upstream failure'' \<noteq> []"
    by (simp_all add: response_500_def)
  show ?thesis
    using h remote_error_status [OF h, of engine0 "script_load page0"]
    by (simp add: resetMicButton_def updateStatus_def)
qed

text \<open>
  Claim C4 as stated fails: for HTTP 500 with the body \<open>{"error":"upstream failure"}\<close>
  the status shown is not exactly "upstream failure".
\<close>

theorem upstream_failure_counterexample:
  "statusMessageText
     (run engine0 (script_load page0) (session_sent @ [FetchSettled 0 (Responded response_500)]))
     \<noteq> ''upstream failure''"
  by (simp add: run_append sent_state)
     (simp add: run_def response_500_def handler_defs if_truthy_def errorMsg_def)

subsection \<open>C5: a response without transcript or audioUrl\<close>

text \<open>
  Claim C5 at a response that is ok and whose body has a \<open>transcript\<close> and no
  \<open>audioUrl\<close>: nothing is rendered (the response area is hidden, transcript text and
  audio source are empty), but no error is reported when the cycle ends. The error
  status that \<open>displayResponse\<close> sets (\<open>displayResponse_falsy_field\<close>) is replaced by
  \<open>sendAudioToApi\<close> in the same callback (\<open>invalid_payload_final_state\<close>), and the
  status shown is "Response received." with no error severity.
\<close>

theorem missing_field_error_overwritten:
  "get_prop (JObj [(''transcript'', JStr ''Turn on Wi-Fi'')]) ''audioUrl'' = Inr None
   \<and> statusMessageText
        (run engine0 (script_load page0)
           (session_sent @ [FetchSettled 0 (Responded response_no_audio)]))
       = ''Response received.''
   \<and> \<not> statusMessageError
        (run engine0 (script_load page0)
           (session_sent @ [FetchSettled 0 (Responded response_no_audio)]))
   \<and> responseAreaDisplay
        (run engine0 (script_load page0)
           (session_sent @ [FetchSettled 0 (Responded response_no_audio)]))
       = DisplayNone
   \<and> transcriptOutputText
        (run engine0 (script_load page0)
           (session_sent @ [FetchSettled 0 (Responded response_no_audio)]))
       = []
   \<and> audioPlayerSrc
        (run engine0 (script_load page0)
           (session_sent @ [FetchSettled 0 (Responded response_no_audio)]))
       = []"
  by (simp add: run_append sent_state)
     (simp add: run_def response_no_audio_def handler_defs if_truthy_def)

subsection \<open>C6: a stop without chunks\<close>

text \<open>
  Claim C6. When \<open>onstop\<close> runs with no chunk captured, the status is "No audio was
  recorded. Please try again." with error severity, which is not the status of a
  recorder error; no blob is handed to a reader and no request is sent, by the callback
  and by the \<open>stop\<close> event as a whole.
\<close>

theorem zero_chunks_no_send:
  assumes "audioChunks s = []"
  shows "onstop sid s =
           resetMicButton (updateStatus ''No audio was recorded. Please try again.'' True s)
         \<and> statusMessageText (onstop sid s) = ''No audio was recorded. Please try again.''
         \<and> statusMessageError (onstop sid s)
         \<and> statusMessageText (onstop sid s) \<noteq> ''Recording error: '' @ name
         \<and> pendingReads (onstop sid s) = pendingReads s
         \<and> inFlight (onstop sid s) = inFlight s
         \<and> pendingReads (step eng s (StopEvent g)) = pendingReads s
         \<and> inFlight (step eng s (StopEvent g)) = inFlight s"
  using assms
  by (simp add: onstop_def resetMicButton_def updateStatus_def split: option.splits)

theorem zero_chunks_no_send_witness:
  "audioChunks (run engine0 (script_load page0) [Click, granted, Click]) = []
   \<and> statusMessageText (onstop 0 (run engine0 (script_load page0) [Click, granted, Click]))
       = ''No audio was recorded. Please try again.''
   \<and> statusMessageError (onstop 0 (run engine0 (script_load page0) [Click, granted, Click]))
   \<and> pendingReads (step engine0 (run engine0 (script_load page0) [Click, granted, Click])
        (StopEvent 0)) = []
   \<and> inFlight (step engine0 (run engine0 (script_load page0) [Click, granted, Click])
        (StopEvent 0)) = []"
proof -
  have h: "audioChunks (run engine0 (script_load page0) [Click, granted, Click]) = []"
    by (simp add: example_defs handler_defs Let_def)
  have p: "pendingReads (run engine0 (script_load page0) [Click, granted, Click]) = []"
    "inFlight (run engine0 (script_load page0) [Click, granted, Click]) = []"
    by (simp_all add: example_defs handler_defs Let_def)
  show ?thesis
    using h p zero_chunks_no_send [OF h, of 0 "[]" engine0 0]
    by (simp add: resetMicButton_def updateStatus_def del: step.simps)
qed

subsection \<open>C7: the base64 round trip\<close>

text \<open>
  Claim C7. Let the chunks captured be non-empty, the \<open>stop\<close> event of a recorder be
  due and \<open>mediaRecorder\<close> refer to a recorder. The blob that \<open>onstop\<close> hands to the reader
  holds the chunks concatenated, \<open>B\<close> bytes in all; when the reader answers with the data
  URL of these bytes (its media type without a comma), the body of the request sent is
  their base64 text, and decoding it gives the same \<open>B\<close> bytes back.
\<close>

theorem base64_round_trip:
  assumes "audioChunks s \<noteq> []" and "[] \<notin> set (audioChunks s)"
    and "g \<in> set (pendingStops s)" and "recorder_at s g = Some r0"
    and "Option.bind (mediaRecorder s) (recorder_at s) = Some r"
    and "CHR '','' \<notin> set media"
    and "s1 = step eng s (StopEvent g)"
    and "s2 = step eng s1
            (ReadSettled (length (pendingReads s))
               (Inr (data_url media (blob_data (last (pendingReads s1))))))"
  shows "blob_data (last (pendingReads s1)) = concat (audioChunks s)
         \<and> length (concat (audioChunks s)) = sum_list (map length (audioChunks s))
         \<and> inFlight s2 = inFlight s @ [b64_encode (concat (audioChunks s))]
         \<and> b64_decode (last (inFlight s2)) = Some (concat (audioChunks s))
         \<and> map_option length (b64_decode (last (inFlight s2)))
             = Some (sum_list (map length (audioChunks s)))"
proof -
  let ?s = "s\<lparr>pendingStops := remove1 g (pendingStops s)\<rparr>"
  let ?bytes = "concat (audioChunks s)"
  have s1: "s1 = onstop (rec_stream r0) ?s"
    using assms(3,4,7) by (simp add: recorder_at_def)
  have r: "Option.bind (mediaRecorder ?s) (recorder_at ?s) = Some r"
    using assms(5) by (simp add: recorder_at_pendingStops)
  obtain ty where reads: "pendingReads s1 = pendingReads s @ [new_Blob (audioChunks s) ty]"
    using onstop_reads(1) [of ?s r "rec_stream r0"] assms(1) r s1 by auto
  have fl: "inFlight s1 = inFlight s"
    using onstop_reads(2) [of ?s r "rec_stream r0"] assms(1) r s1 by simp
  have blob: "blob_data (last (pendingReads s1)) = ?bytes"
    by (simp add: reads new_Blob_def)
  have ne: "?bytes \<noteq> []"
    using assms(1,2) by (cases "audioChunks s") auto
  have len: "length ?bytes = sum_list (map length (audioChunks s))"
    by (simp add: length_concat)
  have "s2 = onstop_resume (Inr (data_url media ?bytes))
               (s1\<lparr>pendingReads := remove_nth (length (pendingReads s)) (pendingReads s1)\<rparr>)"
    using assms(8) by (simp add: blob) (simp add: reads)
  then have "inFlight s2 = inFlight s @ [base64Data (data_url media ?bytes)]"
    by (simp add: onstop_resume_def blobToBase64_def sendAudioToApi_def updateStatus_def Let_def fl)
  then have sent: "inFlight s2 = inFlight s @ [b64_encode ?bytes]"
    by (simp add: base64Data_data_url [OF assms(6) ne])
  show ?thesis
    by (simp add: blob len sent b64_decode_encode)
qed

theorem base64_round_trip_witness:
  "audioChunks (run engine0 (script_load page0) session_recorded) = [[1, 2, 3]]
   \<and> 0 \<in> set (pendingStops (run engine0 (script_load page0) session_recorded))
   \<and> recorder_at (run engine0 (script_load page0) session_recorded) 0
       = Some \<lparr>rec_state = Inactive, mimeType = opus, rec_stream = 0\<rparr>
   \<and> mediaRecorder (run engine0 (script_load page0) session_recorded) = Some 0
   \<and> CHR '','' \<notin> set opus
   \<and> b64_decode (last (inFlight
        (step engine0 (step engine0 (run engine0 (script_load page0) session_recorded) (StopEvent 0))
           (ReadSettled 0 (Inr (data_url opus
              (blob_data (last (pendingReads
                 (step engine0 (run engine0 (script_load page0) session_recorded)
                    (StopEvent 0)))))))))))
       = Some [1, 2, 3]"
proof -
  let ?s = "run engine0 (script_load page0) session_recorded"
  let ?r = "\<lparr>rec_state = Inactive, mimeType = opus, rec_stream = 0\<rparr>"
  have h: "audioChunks ?s \<noteq> []" "[] \<notin> set (audioChunks ?s)"
    "0 \<in> set (pendingStops ?s)" "recorder_at ?s 0 = Some ?r"
    "Option.bind (mediaRecorder ?s) (recorder_at ?s) = Some ?r"
    "CHR '','' \<notin> set opus"
    by (simp_all add: recorded_state recorder_at_def) (simp add: opus_def)
  have e: "pendingReads ?s = []" "audioChunks ?s = [[1, 2, 3]]" "mediaRecorder ?s = Some 0"
    by (simp_all add: recorded_state)
  have d: "b64_decode (last (inFlight
        (step engine0 (step engine0 ?s (StopEvent 0))
           (ReadSettled (length (pendingReads ?s)) (Inr (data_url opus
              (blob_data (last (pendingReads (step engine0 ?s (StopEvent 0)))))))))))
       = Some (concat (audioChunks ?s))"
    using base64_round_trip [OF h refl refl, of engine0] by blast
  show ?thesis
    using h(3,4,6) e d by (simp del: step.simps)
qed

subsection \<open>C8: every outcome returns to idle\<close>

text \<open>
  Claim C8. After the end of \<open>sendAudioToApi\<close> (a rendered answer, a network failure, a
  remote error, an invalid response), after the \<open>catch\<close> of \<open>startRecording\<close> (access
  denied), after \<open>onerror\<close> (a device error), after \<open>onstop\<close> without chunks and after
  a failed read of the blob, \<open>isRecording\<close> is false, the button has lost its
  \<open>recording\<close> class and shows its idle text, it is no more disabled than before, and
  the next press starts a cycle.
\<close>

theorem terminal_outcomes_back_to_idle:
  "back_to_idle s (sendAudioToApi_resume eng outcome s)
   \<and> back_to_idle s (startRecording_catch msg s)
   \<and> back_to_idle s (onerror sid name s)
   \<and> (audioChunks s = [] \<longrightarrow> back_to_idle s (onstop sid s))
   \<and> back_to_idle s (onstop_resume (Inl err) s)"
proof -
  have a: "back_to_idle s (sendAudioToApi_resume eng outcome s)"
  proof (cases "sendAudioToApi_try outcome s")
    case (Inl e)
    then show ?thesis
      by (simp add: sendAudioToApi_resume_def back_to_idle_def idle_def resetMicButton_def
          updateStatus_def click_def)
  next
    case (Inr s1)
    then have "micDisabled s1 = micDisabled s"
      by (auto simp add: sendAudioToApi_try_def displayResponse_def displayResponse_invalid_def
          displayResponse_render_def updateStatus_def
          split: fetch_outcome.splits if_splits sum.splits option.splits)
    with Inr show ?thesis
      by (simp add: sendAudioToApi_resume_def back_to_idle_def idle_def resetMicButton_def
          click_def)
  qed
  have b: "back_to_idle s (startRecording_catch msg s)"
    by (simp add: startRecording_catch_def back_to_idle_def idle_def resetMicButton_def
        updateStatus_def click_def)
  have c: "back_to_idle s (onerror sid name s)"
    by (simp add: onerror_def back_to_idle_def idle_def resetMicButton_def
        updateStatus_def click_def stop_tracks_def Let_def)
  have d: "audioChunks s = [] \<longrightarrow> back_to_idle s (onstop sid s)"
    by (simp add: onstop_def back_to_idle_def idle_def resetMicButton_def
        updateStatus_def click_def)
  have e: "back_to_idle s (onstop_resume (Inl err) s)"
    by (simp add: onstop_resume_def blobToBase64_def back_to_idle_def idle_def resetMicButton_def
        updateStatus_def click_def)
  from a b c d e show ?thesis by simp
qed

theorem terminal_outcomes_back_to_idle_witness:
  "audioChunks (run engine0 (script_load page0) [Click, granted, Click]) = []
   \<and> idle (onstop 0 (run engine0 (script_load page0) [Click, granted, Click]))
   \<and> \<not> micDisabled (onstop 0 (run engine0 (script_load page0) [Click, granted, Click]))
   \<and> \<not> idle (run engine0 (script_load page0) [Click, granted, Click])"
proof -
  have h: "audioChunks (run engine0 (script_load page0) [Click, granted, Click]) = []"
    "\<not> micDisabled (run engine0 (script_load page0) [Click, granted, Click])"
    "micText (run engine0 (script_load page0) [Click, granted, Click]) = ''Processing...''"
    by (simp_all add: example_defs handler_defs Let_def)
  show ?thesis
    using h terminal_outcomes_back_to_idle
      [of "run engine0 (script_load page0) [Click, granted, Click]" engine0 undefined undefined 0 undefined undefined]
    by (simp add: back_to_idle_def idle_def micIdleText_def)
qed

subsection \<open>C9: a new cycle clears the previous answer\<close>

text \<open>
  Claim C9. Once access is granted, and before the recorder is built, the transcript
  text and the audio source are empty and the response area and the player are hidden;
  they still are when \<open>startRecording\<close> has finished, whatever became of the recorder.
\<close>

theorem new_cycle_clears_answer:
  "transcriptOutputText (startRecording_granted s) = []
   \<and> audioPlayerSrc (startRecording_granted s) = []
   \<and> responseAreaDisplay (startRecording_granted s) = DisplayNone
   \<and> audioPlayerDisplay (startRecording_granted s) = DisplayNone
   \<and> recorders (startRecording_granted s) = recorders s
   \<and> transcriptOutputText (startRecording_resume sid pref dflt start_err s) = []
   \<and> audioPlayerSrc (startRecording_resume sid pref dflt start_err s) = []
   \<and> responseAreaDisplay (startRecording_resume sid pref dflt start_err s) = DisplayNone
   \<and> audioPlayerDisplay (startRecording_resume sid pref dflt start_err s) = DisplayNone"
  by (simp add: startRecording_resume_def startRecording_recorder_def startRecording_granted_def
      startRecording_catch_def resetMicButton_def updateStatus_def set_rec_state_def Let_def
      split: sum.splits option.splits)

subsection \<open>C10: an empty field is a missing field\<close>

text \<open>
  Claim C10 at a response that is ok and whose \<open>audioUrl\<close> is the empty string: the
  cycle ends in exactly the state it ends in when the field is absent, with nothing
  rendered, but with no error reported: the status shown is "Response received." with
  no error severity. (\<open>displayResponse\<close> itself takes its \<open>else\<close> branch for an empty
  field as for an absent one: \<open>empty_field_as_absent\<close>.)
\<close>

theorem empty_field_error_overwritten:
  "run engine0 (script_load page0)
     (session_sent @ [FetchSettled 0 (Responded response_empty_audio)])
     = run engine0 (script_load page0)
         (session_sent @ [FetchSettled 0 (Responded response_no_audio)])
   \<and> statusMessageText
        (run engine0 (script_load page0)
           (session_sent @ [FetchSettled 0 (Responded response_empty_audio)]))
       = ''Response received.''
   \<and> \<not> statusMessageError
        (run engine0 (script_load page0)
           (session_sent @ [FetchSettled 0 (Responded response_empty_audio)]))
   \<and> responseAreaDisplay
        (run engine0 (script_load page0)
           (session_sent @ [FetchSettled 0 (Responded response_empty_audio)]))
       = DisplayNone
   \<and> transcriptOutputText
        (run engine0 (script_load page0)
           (session_sent @ [FetchSettled 0 (Responded response_empty_audio)]))
       = []
   \<and> audioPlayerSrc
        (run engine0 (script_load page0)
           (session_sent @ [FetchSettled 0 (Responded response_empty_audio)]))
       = []"
  by (simp add: run_append sent_state)
     (simp add: run_def response_no_audio_def response_empty_audio_def handler_defs if_truthy_def)

end
